theory Spec2Isabelle
  imports Main
begin

section \<open>JavaScript values, exceptions and callbacks\<close>

text \<open>
  TypeScript's types are erased at run time: a parameter of type \<open>T\<close> can hold any
  JavaScript value, \<open>null\<close> and \<open>undefined\<close> included, which is why \<open>Optional.of\<close>
  tests for them. The values the library handles are therefore one universe: the two
  absent values, the error objects built with \<open>new TypeError(message)\<close>, and any other
  value (of a type \<open>'a\<close> left open).
\<close>

datatype error_class =
  Error | EvalError | RangeError | ReferenceError | SyntaxError | TypeError | URIError

datatype 'a jsval =
  Null
  | Undefined
  | ErrorObject (errorClass: error_class) (message: string)
  | Val 'a

text \<open>
  A call either returns a result or throws a value (\<open>throw\<close> accepts any value), and it
  may change the state of the program on the way, since the callbacks handed to the
  combinators are arbitrary functions. A computation maps the state before the call to
  the outcome (\<open>Inl\<close> the thrown value, \<open>Inr\<close> the returned one) and the state after.
\<close>

type_synonym ('s, 'a, 'r) js = "'s \<Rightarrow> ('a jsval + 'r) \<times> 's"

definition js_return :: "'r \<Rightarrow> ('s, 'a, 'r) js" where
  "js_return r = (\<lambda>s. (Inr r, s))"

definition js_throw :: "'a jsval \<Rightarrow> ('s, 'a, 'r) js" where
  "js_throw e = (\<lambda>s. (Inl e, s))"

text \<open>Sequencing: an exception thrown by the first computation skips the second.\<close>

definition js_bind :: "('s, 'a, 'q) js \<Rightarrow> ('q \<Rightarrow> ('s, 'a, 'r) js) \<Rightarrow> ('s, 'a, 'r) js" where
  "js_bind m k = (\<lambda>s. case m s of (Inl e, s') \<Rightarrow> (Inl e, s') | (Inr q, s') \<Rightarrow> k q s')"

section \<open>The class \<open>Optional\<close> and its two subclasses\<close>

text \<open>
  \<open>PresentOptional\<close> has the one field \<open>payload\<close>; \<open>EmptyOptional\<close> has none. Instances
  are never mutated, so an instance is identified with its value and \<open>return this\<close> is
  modelled as returning that value.
\<close>

datatype 'a Optional =
  PresentOptional "'a jsval"
  | EmptyOptional

fun isPresent :: "'a Optional \<Rightarrow> bool" where
  "isPresent (PresentOptional payload) = True"
| "isPresent EmptyOptional = False"

definition isEmpty :: "'a Optional \<Rightarrow> bool" where
  "isEmpty this = (\<not> isPresent this)"

subsection \<open>Static factories\<close>

definition Optional_of :: "'a jsval \<Rightarrow> ('s, 'a, 'a Optional) js" where
  "Optional_of v =
     (if v \<noteq> Null \<and> v \<noteq> Undefined
      then js_return (PresentOptional v)
      else js_throw (ErrorObject TypeError ''The passed value was null or undefined.''))"

definition Optional_ofNonNull :: "'a jsval \<Rightarrow> ('s, 'a, 'a Optional) js" where
  "Optional_ofNonNull v = Optional_of v"

definition Optional_ofNullable :: "'a jsval \<Rightarrow> ('s, 'a, 'a Optional) js" where
  "Optional_ofNullable nullable =
     (if nullable \<noteq> Null \<and> nullable \<noteq> Undefined
      then js_return (PresentOptional nullable)
      else js_return EmptyOptional)"

definition Optional_empty :: "('s, 'a, 'a Optional) js" where
  "Optional_empty = js_return EmptyOptional"

subsection \<open>Methods\<close>

text \<open>
  Each abstract method has one equation per subclass. The names \<open>filter\<close>, \<open>map\<close> and
  \<open>or\<close> are taken by the library, hence the suffix. A callback is a computation, or a
  function from the payload to a computation; its result type is the one its TypeScript
  signature declares (\<open>boolean\<close> for the predicate of \<open>filter\<close>).
\<close>

fun get :: "'a Optional \<Rightarrow> ('s, 'a, 'a jsval) js" where
  "get (PresentOptional payload) = js_return payload"
| "get EmptyOptional = js_throw (ErrorObject TypeError ''The optional is not present.'')"

fun ifPresent :: "'a Optional \<Rightarrow> ('a jsval \<Rightarrow> ('s, 'a, unit) js) \<Rightarrow> ('s, 'a, unit) js" where
  "ifPresent (PresentOptional payload) consumer = consumer payload"
| "ifPresent EmptyOptional consumer = js_return ()"

fun ifPresentOrElse ::
  "'a Optional \<Rightarrow> ('a jsval \<Rightarrow> ('s, 'a, unit) js) \<Rightarrow> ('s, 'a, unit) js \<Rightarrow> ('s, 'a, unit) js" where
  "ifPresentOrElse (PresentOptional payload) consumer emptyAction = consumer payload"
| "ifPresentOrElse EmptyOptional consumer emptyAction = emptyAction"

fun filter_opt :: "'a Optional \<Rightarrow> ('a jsval \<Rightarrow> ('s, 'a, bool) js) \<Rightarrow> ('s, 'a, 'a Optional) js" where
  "filter_opt (PresentOptional payload) predicate =
     js_bind (predicate payload)
       (\<lambda>b. if b then js_return (PresentOptional payload) else Optional_empty)"
| "filter_opt EmptyOptional predicate = js_return EmptyOptional"

fun map_opt :: "'a Optional \<Rightarrow> ('a jsval \<Rightarrow> ('s, 'a, 'a jsval) js) \<Rightarrow> ('s, 'a, 'a Optional) js" where
  "map_opt (PresentOptional payload) mapper = js_bind (mapper payload) Optional_ofNullable"
| "map_opt EmptyOptional mapper = Optional_empty"

fun flatMap :: "'a Optional \<Rightarrow> ('a jsval \<Rightarrow> ('s, 'a, 'a Optional) js) \<Rightarrow> ('s, 'a, 'a Optional) js" where
  "flatMap (PresentOptional payload) mapper = mapper payload"
| "flatMap EmptyOptional mapper = Optional_empty"

fun or_opt :: "'a Optional \<Rightarrow> ('s, 'a, 'a Optional) js \<Rightarrow> ('s, 'a, 'a Optional) js" where
  "or_opt (PresentOptional payload) supplier = js_return (PresentOptional payload)"
| "or_opt EmptyOptional supplier = supplier"

fun orElse :: "'a Optional \<Rightarrow> 'a jsval \<Rightarrow> ('s, 'a, 'a jsval) js" where
  "orElse (PresentOptional payload) another = js_return payload"
| "orElse EmptyOptional another = js_return another"

fun orElseGet :: "'a Optional \<Rightarrow> ('s, 'a, 'a jsval) js \<Rightarrow> ('s, 'a, 'a jsval) js" where
  "orElseGet (PresentOptional payload) another = js_return payload"
| "orElseGet EmptyOptional another = js_bind another (orElse EmptyOptional)"

fun orElseThrow :: "'a Optional \<Rightarrow> ('s, 'a, 'a jsval) js \<Rightarrow> ('s, 'a, 'a jsval) js" where
  "orElseThrow (PresentOptional payload) exception = js_return payload"
| "orElseThrow EmptyOptional exception = js_bind exception js_throw"

subsection \<open>The invariant of the present variant\<close>

text \<open>
  The constructor of \<open>PresentOptional\<close> stores whatever it is given. An instance is
  well formed when its payload, if it has one, is neither \<open>null\<close> nor \<open>undefined\<close>.
\<close>

fun nonSentinel :: "'a Optional \<Rightarrow> bool" where
  "nonSentinel (PresentOptional payload) = (payload \<noteq> Null \<and> payload \<noteq> Undefined)"
| "nonSentinel EmptyOptional = True"

subsection \<open>Postconditions\<close>

text \<open>
  Specification vocabulary, not part of the library: \<open>ensures m P\<close> says that whatever
  the computation \<open>m\<close> returns, from any state, satisfies \<open>P\<close>. A computation that throws
  returns nothing, so it satisfies every postcondition.
\<close>

definition ensures :: "('s, 'a, 'r) js \<Rightarrow> ('r \<Rightarrow> bool) \<Rightarrow> bool" where
  "ensures m P = (\<forall>s r s'. m s = (Inr r, s') \<longrightarrow> P r)"

section \<open>Running the monad\<close>

lemma js_return_run: "js_return r s = (Inr r, s)"
  by (simp add: js_return_def)

lemma js_throw_run: "js_throw e s = (Inl e, s)"
  by (simp add: js_throw_def)

lemma js_bind_returns: "m s = (Inr q, s') \<Longrightarrow> js_bind m k s = k q s'"
  by (simp add: js_bind_def)

lemma js_bind_throws: "m s = (Inl e, s') \<Longrightarrow> js_bind m k s = (Inl e, s')"
  by (simp add: js_bind_def)

lemma js_bind_return_right: "js_bind m js_return = m"
  by (auto simp: js_bind_def js_return_def fun_eq_iff split: prod.splits sum.splits)

lemma js_return_bind: "js_bind (js_return r) k = k r"
  by (simp add: js_bind_def js_return_def)

lemma js_bind_cong_returns:
  assumes "\<And>s q s'. m s = (Inr q, s') \<Longrightarrow> k q s' = k' q s'"
  shows "js_bind m k = js_bind m k'"
proof
  fix s
  show "js_bind m k s = js_bind m k' s"
  proof (cases "m s")
    case (Pair out s')
    then show ?thesis
      using assms by (cases out) (simp_all add: js_bind_def)
  qed
qed

lemma Optional_ofNullable_run:
  "Optional_ofNullable v s =
     (Inr (if v \<noteq> Null \<and> v \<noteq> Undefined then PresentOptional v else EmptyOptional), s)"
  by (simp add: Optional_ofNullable_def js_return_run)

lemma js_bind_returnsD:
  assumes "js_bind m k s = (Inr r, s')"
  obtains q t where "m s = (Inr q, t)" and "k q t = (Inr r, s')"
  using assms by (auto simp: js_bind_def split: prod.splits sum.splits)

lemma js_bind_assoc: "js_bind (js_bind m k) k' = js_bind m (\<lambda>q. js_bind (k q) k')"
  by (auto simp: js_bind_def fun_eq_iff split: prod.splits sum.splits)

lemma ensuresI: "(\<And>s r s'. m s = (Inr r, s') \<Longrightarrow> P r) \<Longrightarrow> ensures m P"
  by (simp add: ensures_def)

lemma ensuresD: "ensures m P \<Longrightarrow> m s = (Inr r, s') \<Longrightarrow> P r"
  by (auto simp: ensures_def)

lemma ensures_return: "P r \<Longrightarrow> ensures (js_return r) P"
  by (simp add: ensures_def js_return_run)

lemma ensures_throw: "ensures (js_throw e) P"
  by (simp add: ensures_def js_throw_run)

lemma ensures_bind:
  assumes "\<And>q. ensures (k q) P"
  shows "ensures (js_bind m k) P"
proof (rule ensuresI)
  fix s r s'
  assume "js_bind m k s = (Inr r, s')"
  then obtain q t where "k q t = (Inr r, s')"
    by (rule js_bind_returnsD)
  with assms show "P r"
    by (rule ensuresD)
qed

lemma ensures_Optional_of: "ensures (Optional_of v) nonSentinel"
  by (simp add: Optional_of_def ensures_return ensures_throw)

lemma ensures_Optional_ofNullable: "ensures (Optional_ofNullable v) nonSentinel"
  by (simp add: Optional_ofNullable_def ensures_return)

lemma ensures_Optional_empty: "ensures Optional_empty nonSentinel"
  by (simp add: Optional_empty_def ensures_return)

lemma ensures_filter_opt: "nonSentinel opt \<Longrightarrow> ensures (filter_opt opt predicate) nonSentinel"
  by (cases opt) (simp_all add: ensures_bind ensures_return ensures_Optional_empty)

lemma ensures_map_opt: "ensures (map_opt opt mapper) nonSentinel"
  by (cases opt) (simp_all add: ensures_bind ensures_Optional_ofNullable ensures_Optional_empty)

lemma ensures_flatMap:
  "(\<And>x. ensures (mapper x) nonSentinel) \<Longrightarrow> ensures (flatMap opt mapper) nonSentinel"
  by (cases opt) (simp_all add: ensures_Optional_empty)

lemma ensures_or_opt:
  "nonSentinel opt \<Longrightarrow> ensures supplier nonSentinel \<Longrightarrow> ensures (or_opt opt supplier) nonSentinel"
  by (cases opt) (simp_all add: ensures_return)

lemma ensures_get:
  "nonSentinel opt \<Longrightarrow> ensures (get opt) (\<lambda>x. x \<noteq> Null \<and> x \<noteq> Undefined)"
  by (cases opt) (simp_all add: ensures_return ensures_throw)

lemma isEmpty_negates_isPresent: "isEmpty opt = (\<not> isPresent opt)"
  by (simp add: isEmpty_def)

section \<open>Construction\<close>

text \<open>
  Claim C1. For a value that is neither \<open>null\<close> nor \<open>undefined\<close>, \<open>of\<close> and
  \<open>ofNullable\<close> both return the present Optional holding that value, without touching
  the state; that Optional reports \<open>isPresent\<close> and \<open>get\<close> returns the value.
  \<open>ofNullable\<close> of \<open>null\<close> and of \<open>undefined\<close> returns the empty Optional (it returns,
  it does not throw), and so does \<open>empty\<close>.
\<close>

theorem construction_postconditions:
  fixes v :: "'a jsval" and s :: 's
  assumes "v \<noteq> Null" and "v \<noteq> Undefined"
  shows "Optional_of v s = (Inr (PresentOptional v), s)
    \<and> Optional_ofNullable v s = (Inr (PresentOptional v), s)
    \<and> isPresent (PresentOptional v)
    \<and> get (PresentOptional v) s = (Inr v, s)
    \<and> Optional_ofNullable Null s = (Inr (EmptyOptional :: 'a Optional), s)
    \<and> Optional_ofNullable Undefined s = (Inr (EmptyOptional :: 'a Optional), s)
    \<and> Optional_empty s = (Inr (EmptyOptional :: 'a Optional), s)"
  using assms
  by (simp add: Optional_of_def Optional_ofNullable_def Optional_empty_def js_return_run)

theorem construction_postconditions_witness:
  "Optional_of (Val (42::int)) (0::nat) = (Inr (PresentOptional (Val 42)), 0)
   \<and> Optional_ofNullable (Val (42::int)) (0::nat) = (Inr (PresentOptional (Val 42)), 0)
   \<and> get (PresentOptional (Val (42::int))) (0::nat) = (Inr (Val 42), 0)
   \<and> Optional_ofNullable (Null :: int jsval) (0::nat) = (Inr EmptyOptional, 0)
   \<and> Optional_ofNullable (Undefined :: int jsval) (0::nat) = (Inr EmptyOptional, 0)"
  using construction_postconditions [of "Val (42::int)" "0::nat"]
  by simp

section \<open>The two failures of the library\<close>

text \<open>
  Claim C2, as the code has it. \<open>of\<close> and its alias \<open>ofNonNull\<close>, given \<open>null\<close> or
  \<open>undefined\<close>, throw an error object and leave the state alone; \<open>get\<close> on the empty
  Optional throws an error object too. Both objects are of the one class \<open>TypeError\<close>:
  the library has no error class of its own. What tells the two failures apart is the
  message, which differs.
\<close>

theorem failures_raise_TypeError:
  fixes v :: "'a jsval" and s t :: 's
  assumes "v = Null \<or> v = Undefined"
  shows "\<exists>(e1 :: 'a jsval) (e2 :: 'a jsval).
      Optional_of v s = (Inl e1, s)
    \<and> Optional_ofNonNull v s = (Inl e1, s)
    \<and> get (EmptyOptional :: 'a Optional) t = (Inl e2, t)
    \<and> errorClass e1 = TypeError \<and> errorClass e2 = TypeError
    \<and> message e1 \<noteq> message e2"
proof -
  let ?e1 = "ErrorObject TypeError ''The passed value was null or undefined.'' :: 'a jsval"
  let ?e2 = "ErrorObject TypeError ''The optional is not present.'' :: 'a jsval"
  from assms have "Optional_of v s = (Inl ?e1, s)"
    by (auto simp: Optional_of_def js_throw_run)
  moreover from this have "Optional_ofNonNull v s = (Inl ?e1, s)"
    by (simp add: Optional_ofNonNull_def)
  moreover have "get (EmptyOptional :: 'a Optional) t = (Inl ?e2, t)"
    by (simp add: js_throw_run)
  moreover have "message ?e1 \<noteq> message ?e2"
    by simp
  ultimately show ?thesis
    by (intro exI [of _ ?e1] exI [of _ ?e2]) simp
qed

theorem failures_raise_TypeError_witness:
  "\<exists>(e1 :: int jsval) (e2 :: int jsval).
      Optional_of Null (0::nat) = (Inl e1, 0)
    \<and> Optional_ofNonNull Null (0::nat) = (Inl e1, 0)
    \<and> get (EmptyOptional :: int Optional) (0::nat) = (Inl e2, 0)
    \<and> errorClass e1 = TypeError \<and> errorClass e2 = TypeError
    \<and> message e1 \<noteq> message e2"
  using failures_raise_TypeError [of "Null :: int jsval" "0::nat" "0::nat"]
  by simp

text \<open>
  The reading of claim C2 under which the two failures are of two distinct kinds fails:
  the error thrown by \<open>of(null)\<close> and the error thrown by \<open>get()\<close> on the empty Optional
  have the same class.
\<close>

theorem error_kinds_same_class:
  "isl (fst (Optional_of (Null :: unit jsval) ()))
   \<and> isl (fst (get (EmptyOptional :: unit Optional) ()))
   \<and> errorClass (projl (fst (Optional_of (Null :: unit jsval) ())))
       = errorClass (projl (fst (get (EmptyOptional :: unit Optional) ())))"
  by (simp add: Optional_of_def js_throw_run)

text \<open>
  Claim C10. \<open>of\<close> and \<open>ofNonNull\<close>, given \<open>null\<close> or \<open>undefined\<close>, throw a \<open>TypeError\<close>
  whose message is \<open>The passed value was null or undefined.\<close>; \<open>get\<close> on the empty
  Optional throws a \<open>TypeError\<close> whose message is \<open>The optional is not present.\<close> The two
  errors have the same class and different messages.
\<close>

theorem both_failures_are_TypeErrors:
  fixes s :: 's
  shows "Optional_of (Null :: 'a jsval) s
        = (Inl (ErrorObject TypeError ''The passed value was null or undefined.''), s)
    \<and> Optional_of (Undefined :: 'a jsval) s
        = (Inl (ErrorObject TypeError ''The passed value was null or undefined.''), s)
    \<and> Optional_ofNonNull (Null :: 'a jsval) s
        = (Inl (ErrorObject TypeError ''The passed value was null or undefined.''), s)
    \<and> Optional_ofNonNull (Undefined :: 'a jsval) s
        = (Inl (ErrorObject TypeError ''The passed value was null or undefined.''), s)
    \<and> get (EmptyOptional :: 'a Optional) s
        = (Inl (ErrorObject TypeError ''The optional is not present.''), s)
    \<and> errorClass (ErrorObject TypeError ''The passed value was null or undefined.'' :: 'a jsval)
        = errorClass (ErrorObject TypeError ''The optional is not present.'' :: 'a jsval)
    \<and> message (ErrorObject TypeError ''The passed value was null or undefined.'' :: 'a jsval)
        \<noteq> message (ErrorObject TypeError ''The optional is not present.'' :: 'a jsval)"
  by (simp add: Optional_of_def Optional_ofNonNull_def js_throw_run)

section \<open>Transforming combinators\<close>

text \<open>
  Claim C3. On a present Optional, \<open>map\<close> is \<open>ofNullable\<close> applied to the mapper's result
  on the payload (first conjunct, for any mapper \<open>h\<close>, as an equation between
  computations: the mapper runs once, and if it throws so does \<open>map\<close>). When the mapper
  returns \<open>null\<close> or \<open>undefined\<close> the result is the empty Optional. For a mapper \<open>g\<close> that
  never returns \<open>null\<close> or \<open>undefined\<close>, \<open>o.map(g).get()\<close> is \<open>g(o.get())\<close>. On the empty
  Optional, \<open>map\<close> returns the empty Optional and leaves the state as it was, whatever
  the mapper: the mapper is not run.
\<close>

theorem map_law:
  fixes f g h :: "'a jsval \<Rightarrow> ('s, 'a, 'a jsval) js"
  assumes returns: "f v s = (Inr r, s')"
    and sentinel: "r = Null \<or> r = Undefined"
    and never: "\<And>x t y t'. g x t = (Inr y, t') \<Longrightarrow> y \<noteq> Null \<and> y \<noteq> Undefined"
  shows "map_opt (PresentOptional w) h
           = js_bind (js_bind (get (PresentOptional w)) h) Optional_ofNullable
    \<and> map_opt (PresentOptional v) f s = (Inr EmptyOptional, s')
    \<and> js_bind (map_opt (PresentOptional w) g) get = js_bind (get (PresentOptional w)) g
    \<and> map_opt EmptyOptional h s = (Inr EmptyOptional, s)"
proof (intro conjI)
  show "map_opt (PresentOptional w) h
          = js_bind (js_bind (get (PresentOptional w)) h) Optional_ofNullable"
    by (simp add: js_return_bind)
  from returns sentinel show "map_opt (PresentOptional v) f s = (Inr EmptyOptional, s')"
    by (auto simp: js_bind_returns Optional_ofNullable_run)
  have "js_bind (g w) (\<lambda>y. js_bind (Optional_ofNullable y) get) = js_bind (g w) js_return"
  proof (rule js_bind_cong_returns)
    fix t y t'
    assume "g w t = (Inr y, t')"
    then have "y \<noteq> Null \<and> y \<noteq> Undefined"
      by (rule never)
    then show "js_bind (Optional_ofNullable y) get t' = js_return y t'"
      by (simp add: js_bind_def Optional_ofNullable_run)
  qed
  then show "js_bind (map_opt (PresentOptional w) g) get = js_bind (get (PresentOptional w)) g"
    by (simp add: js_bind_assoc js_bind_return_right js_return_bind)
  show "map_opt EmptyOptional h s = (Inr EmptyOptional, s)"
    by (simp add: Optional_empty_def js_return_run)
qed

theorem map_law_witness:
  "map_opt (PresentOptional (Val (5::int))) (\<lambda>x. js_return Undefined) (0::nat)
     = (Inr EmptyOptional, 0)
   \<and> js_bind (map_opt (PresentOptional (Val (42::int)))
         (\<lambda>x. js_return (case x of Val n \<Rightarrow> Val (n * 2) | _ \<Rightarrow> Val 0))) get (0::nat)
     = (Inr (Val 84), 0)"
proof -
  let ?f = "\<lambda>x :: int jsval. js_return Undefined :: (nat, int, int jsval) js"
  let ?g = "\<lambda>x :: int jsval.
    js_return (case x of Val n \<Rightarrow> Val (n * 2) | _ \<Rightarrow> Val 0) :: (nat, int, int jsval) js"
  have returns: "?f (Val 5) 0 = (Inr Undefined, 0)"
    by (simp add: js_return_run)
  have never: "\<And>x t y t'. ?g x t = (Inr y, t') \<Longrightarrow> y \<noteq> Null \<and> y \<noteq> Undefined"
    by (auto simp: js_return_run split: jsval.splits)
  have "js_bind (get (PresentOptional (Val 42))) ?g 0 = (Inr (Val 84), 0)"
    by (simp add: js_return_bind js_return_run)
  moreover have "map_opt (PresentOptional (Val 5)) ?f 0 = (Inr EmptyOptional, 0)
      \<and> js_bind (map_opt (PresentOptional (Val 42)) ?g) get
          = js_bind (get (PresentOptional (Val 42))) ?g"
    using map_law [where f = ?f and v = "Val 5" and s = 0 and r = Undefined and s' = 0
        and g = ?g and w = "Val 42" and h = ?f] returns never
    by blast
  ultimately show ?thesis
    by simp
qed

text \<open>
  Claim C4. On a present Optional, \<open>flatMap\<close> is the mapper applied to the payload, with
  nothing wrapped around its result, so \<open>o.flatMap(f).get()\<close> is \<open>f(o.get()).get()\<close>. On
  the empty Optional, \<open>flatMap\<close> returns the empty Optional and leaves the state as it
  was, whatever the mapper: the mapper is not run.
\<close>

theorem flatMap_law:
  fixes f :: "'a jsval \<Rightarrow> ('s, 'a, 'a Optional) js"
  shows "flatMap (PresentOptional v) f = js_bind (get (PresentOptional v)) f
    \<and> js_bind (flatMap (PresentOptional v) f) get
        = js_bind (js_bind (get (PresentOptional v)) f) get
    \<and> flatMap EmptyOptional f s = (Inr EmptyOptional, s)"
  by (simp add: js_return_bind Optional_empty_def js_return_run)

text \<open>
  Claim C5. On a present Optional whose payload the predicate accepts, \<open>filter\<close> returns
  the same present Optional; when the predicate rejects the payload, it returns the empty
  Optional; in both cases the state is the one the single run of the predicate left. On
  the empty Optional, \<open>filter\<close> returns the empty Optional and leaves the state as it
  was, whatever the predicate: the predicate is not run.
\<close>

theorem filter_law:
  fixes p q r :: "'a jsval \<Rightarrow> ('s, 'a, bool) js"
  assumes holds: "p v s = (Inr True, s')"
    and fails: "q w t = (Inr False, t')"
  shows "filter_opt (PresentOptional v) p s = (Inr (PresentOptional v), s')
    \<and> filter_opt (PresentOptional w) q t = (Inr EmptyOptional, t')
    \<and> filter_opt EmptyOptional r s = (Inr EmptyOptional, s)"
  using assms
  by (simp add: js_bind_def Optional_empty_def js_return_run)

theorem filter_law_witness:
  "filter_opt (PresentOptional (Val ''ab''))
      (\<lambda>x. js_return (case x of Val a \<Rightarrow> length a > 1 | _ \<Rightarrow> False)) (0::nat)
     = (Inr (PresentOptional (Val ''ab'')), 0)
   \<and> filter_opt (PresentOptional (Val ''a''))
      (\<lambda>x. js_return (case x of Val a \<Rightarrow> length a > 1 | _ \<Rightarrow> False)) (0::nat)
     = (Inr EmptyOptional, 0)"
proof -
  let ?p = "\<lambda>x :: string jsval.
    js_return (case x of Val a \<Rightarrow> length a > 1 | _ \<Rightarrow> False) :: (nat, string, bool) js"
  have holds: "?p (Val ''ab'') 0 = (Inr True, 0)"
    by (simp add: js_return_run)
  have fails: "?p (Val ''a'') 0 = (Inr False, 0)"
    by (simp add: js_return_run)
  from holds fails
  show ?thesis
    using filter_law [where p = ?p and v = "Val ''ab''" and s = 0 and s' = 0
        and q = ?p and w = "Val ''a''" and t = 0 and t' = 0 and r = ?p]
    by blast
qed

section \<open>Fallback combinators\<close>

text \<open>
  Claim C6. On a present Optional with payload \<open>x\<close>, \<open>or\<close> returns the same Optional,
  and \<open>orElse\<close> and \<open>orElseGet\<close> return \<open>x\<close>, the state being left as it was whatever the
  supplier: the supplier is not run. On the empty Optional, \<open>orElse(y)\<close> returns \<open>y\<close> and
  leaves the state as it was, \<open>orElseGet(supplier)\<close> is \<open>supplier()\<close> and \<open>or(supplier)\<close>
  is \<open>supplier()\<close>.
\<close>

theorem fallback_short_circuit:
  fixes supplier :: "('s, 'a, 'a Optional) js" and another :: "('s, 'a, 'a jsval) js"
  shows "or_opt (PresentOptional x) supplier s = (Inr (PresentOptional x), s)
    \<and> orElse (PresentOptional x) y s = (Inr x, s)
    \<and> orElseGet (PresentOptional x) another s = (Inr x, s)
    \<and> orElse EmptyOptional y s = (Inr y, s)
    \<and> orElseGet EmptyOptional another = another
    \<and> or_opt EmptyOptional supplier = supplier"
proof -
  have "orElse (EmptyOptional :: 'a Optional) = (js_return :: 'a jsval \<Rightarrow> ('s, 'a, 'a jsval) js)"
    by (rule ext) simp
  then have "orElseGet EmptyOptional another = another"
    by (simp add: js_bind_return_right)
  then show ?thesis
    by (simp add: js_return_run)
qed

text \<open>
  Claim C7. On a present Optional, \<open>orElseThrow\<close> returns the payload and leaves the
  state as it was, for every error supplier, also one that would throw or change the
  state: the supplier is not run. On the empty Optional, when the supplier returns the
  value \<open>e\<close>, \<open>orElseThrow\<close> throws \<open>e\<close> itself, and the state is the one the single run
  of the supplier left.
\<close>

theorem orElseThrow_law:
  fixes errorSupplier exception :: "('s, 'a, 'a jsval) js"
  assumes "exception s = (Inr e, s')"
  shows "orElseThrow (PresentOptional v) errorSupplier t = (Inr v, t)
    \<and> orElseThrow EmptyOptional exception s = (Inl e, s')"
  using assms
  by (simp add: js_return_run js_bind_def js_throw_run)

theorem orElseThrow_law_witness:
  "orElseThrow (PresentOptional (Val (1::int)))
      (\<lambda>n. (Inl (ErrorObject RangeError ''boom''), Suc n)) (0::nat)
     = (Inr (Val 1), 0)
   \<and> orElseThrow (PresentOptional (Val (1::int)))
      (\<lambda>n. (Inr (ErrorObject RangeError ''none''), Suc n)) (0::nat)
     = (Inr (Val 1), 0)
   \<and> orElseThrow EmptyOptional (\<lambda>n. (Inr (ErrorObject RangeError ''none'' :: int jsval), Suc n)) 0
     = (Inl (ErrorObject RangeError ''none''), Suc 0)"
proof -
  let ?returning = "\<lambda>n :: nat. (Inr (ErrorObject RangeError ''none'' :: int jsval) :: int jsval + int jsval, Suc n)"
  let ?throwing = "\<lambda>n :: nat. (Inl (ErrorObject RangeError ''boom'' :: int jsval) :: int jsval + int jsval, Suc n)"
  have returns: "?returning 0 = (Inr (ErrorObject RangeError ''none''), Suc 0)"
    by simp
  from orElseThrow_law [where exception = ?returning and s = 0 and s' = "Suc 0"
      and e = "ErrorObject RangeError ''none''" and errorSupplier = ?throwing
      and v = "Val 1" and t = 0, OF returns]
    orElseThrow_law [where exception = ?returning and s = 0 and s' = "Suc 0"
      and e = "ErrorObject RangeError ''none''" and errorSupplier = ?returning
      and v = "Val 1" and t = 0, OF returns]
  show ?thesis
    by simp
qed

section \<open>Side-effecting combinators\<close>

text \<open>
  Claim C8. On a present Optional, \<open>ifPresent\<close> is one run of the consumer on the
  payload; on the empty Optional it returns and leaves the state as it was. On a present
  Optional, \<open>ifPresentOrElse\<close> is one run of the consumer on the payload; on the empty
  Optional it is one run of the empty action. With two callbacks that each count their
  own runs, the counts after \<open>ifPresentOrElse\<close> are one and zero on a present Optional,
  zero and one on the empty one.
\<close>

theorem side_effecting_combinators:
  fixes consumer :: "'a jsval \<Rightarrow> ('s, 'a, unit) js" and emptyAction :: "('s, 'a, unit) js"
  shows "ifPresent (PresentOptional v) consumer = consumer v
    \<and> ifPresent EmptyOptional consumer s = (Inr (), s)
    \<and> ifPresentOrElse (PresentOptional v) consumer emptyAction = consumer v
    \<and> ifPresentOrElse EmptyOptional consumer emptyAction = emptyAction
    \<and> ifPresentOrElse (PresentOptional v)
          (\<lambda>x (c, e). (Inr (), (Suc c, e))) (\<lambda>(c, e). (Inr (), (c, Suc e))) (0, 0)
        = (Inr (), (1, 0))
    \<and> ifPresentOrElse EmptyOptional
          (\<lambda>x (c, e). (Inr (), (Suc c, e))) (\<lambda>(c, e). (Inr (), (c, Suc e))) (0, 0)
        = (Inr (), (0, 1))"
  by (simp add: js_return_run)

section \<open>The invariant\<close>

text \<open>
  Claim C9. Every Optional that \<open>of\<close>, \<open>ofNonNull\<close>, \<open>ofNullable\<close> and \<open>empty\<close> return is
  well formed: if it is present, its payload is neither \<open>null\<close> nor \<open>undefined\<close>. Applied
  to a well-formed Optional, \<open>filter\<close>, \<open>map\<close>, \<open>flatMap\<close> and \<open>or\<close> return well-formed
  Optionals, provided the Optionals that the mapper of \<open>flatMap\<close> and the supplier of
  \<open>or\<close> return are well formed. On a well-formed Optional, \<open>get\<close> never returns \<open>null\<close>
  or \<open>undefined\<close>.
\<close>

theorem non_sentinel_invariant:
  fixes opt :: "'a Optional"
    and predicate :: "'a jsval \<Rightarrow> ('s, 'a, bool) js"
    and mapper :: "'a jsval \<Rightarrow> ('s, 'a, 'a jsval) js"
    and flatMapper :: "'a jsval \<Rightarrow> ('s, 'a, 'a Optional) js"
    and supplier :: "('s, 'a, 'a Optional) js"
  assumes "nonSentinel opt"
    and "\<And>x. ensures (flatMapper x) nonSentinel"
    and "ensures supplier nonSentinel"
  shows "ensures (Optional_of v :: ('s, 'a, 'a Optional) js) nonSentinel
    \<and> ensures (Optional_ofNonNull v :: ('s, 'a, 'a Optional) js) nonSentinel
    \<and> ensures (Optional_ofNullable v :: ('s, 'a, 'a Optional) js) nonSentinel
    \<and> ensures (Optional_empty :: ('s, 'a, 'a Optional) js) nonSentinel
    \<and> ensures (filter_opt opt predicate) nonSentinel
    \<and> ensures (map_opt opt mapper) nonSentinel
    \<and> ensures (flatMap opt flatMapper) nonSentinel
    \<and> ensures (or_opt opt supplier) nonSentinel
    \<and> ensures (get opt :: ('s, 'a, 'a jsval) js) (\<lambda>x. x \<noteq> Null \<and> x \<noteq> Undefined)"
proof -
  have "Optional_ofNonNull v = (Optional_of v :: ('s, 'a, 'a Optional) js)"
    by (simp add: Optional_ofNonNull_def)
  with assms show ?thesis
    by (simp add: ensures_Optional_of ensures_Optional_ofNullable ensures_Optional_empty
        ensures_filter_opt ensures_map_opt ensures_flatMap ensures_or_opt ensures_get)
qed

theorem non_sentinel_invariant_witness:
  "flatMap (PresentOptional (Val (5::int))) Optional_ofNullable (0::nat)
     = (Inr (PresentOptional (Val 5)), 0)
   \<and> nonSentinel (PresentOptional (Val (5::int)))
   \<and> get (PresentOptional (Val (5::int))) (0::nat) = (Inr (Val 5), 0)
   \<and> Val (5::int) \<noteq> Null \<and> Val (5::int) \<noteq> Undefined"
proof -
  let ?opt = "PresentOptional (Val (5::int))"
  let ?supplier = "Optional_ofNullable (Val 7) :: (nat, int, int Optional) js"
  have start: "nonSentinel ?opt"
    by simp
  have mapper: "\<And>x :: int jsval.
      ensures (Optional_ofNullable x :: (nat, int, int Optional) js) nonSentinel"
    by (rule ensures_Optional_ofNullable)
  have supplier: "ensures ?supplier nonSentinel"
    by (rule ensures_Optional_ofNullable)
  note inv = non_sentinel_invariant [where opt = ?opt and flatMapper = Optional_ofNullable
      and supplier = ?supplier and v = "Val 5" and predicate = "\<lambda>x. js_return True"
      and mapper = "\<lambda>x. js_return Null", OF start mapper supplier]
  have flat: "flatMap ?opt Optional_ofNullable (0::nat) = (Inr ?opt, 0)"
    by (simp add: Optional_ofNullable_run)
  have got: "get ?opt (0::nat) = (Inr (Val 5), 0)"
    by (simp add: js_return_run)
  from inv have "ensures (flatMap ?opt Optional_ofNullable :: (nat, int, int Optional) js) nonSentinel"
    by blast
  then have "nonSentinel ?opt"
    using flat by (rule ensuresD)
  moreover from inv
  have "ensures (get ?opt :: (nat, int, int jsval) js) (\<lambda>x. x \<noteq> Null \<and> x \<noteq> Undefined)"
    by blast
  then have "Val (5::int) \<noteq> Null \<and> Val (5::int) \<noteq> Undefined"
    using got by (rule ensuresD)
  ultimately show ?thesis
    using flat got by blast
qed

section \<open>Scenarios\<close>

text \<open>
  Chains of calls on concrete values: \<open>Optional.of(42).map(x => x * 2).orElse(0)\<close> is
  \<open>84\<close>, the same chain from \<open>Optional.empty()\<close> is \<open>0\<close>,
  \<open>Optional.of(1).flatMap(x => Optional.of(x + 1)).get()\<close> is \<open>2\<close>, and
  \<open>Optional.ofNullable(null).ifPresentOrElse(...)\<close> runs the empty action once.
\<close>

lemma scenario_map_orElse:
  "js_bind (js_bind (Optional_of (Val (42::int)))
      (\<lambda>opt. map_opt opt (\<lambda>x. js_return (case x of Val n \<Rightarrow> Val (n * 2) | _ \<Rightarrow> x))))
      (\<lambda>opt. orElse opt (Val 0)) s
   = (Inr (Val 84), s)"
  by (simp add: js_bind_def Optional_of_def Optional_ofNullable_def js_return_run)

lemma scenario_empty_map_orElse:
  "js_bind (js_bind Optional_empty
      (\<lambda>opt. map_opt opt (\<lambda>x. js_return (case x of Val n \<Rightarrow> Val (n * 2) | _ \<Rightarrow> x))))
      (\<lambda>opt. orElse opt (Val (0::int))) s
   = (Inr (Val 0), s)"
  by (simp add: js_bind_def Optional_empty_def js_return_run)

lemma scenario_flatMap_get:
  "js_bind (js_bind (Optional_of (Val (1::int)))
      (\<lambda>opt. flatMap opt (\<lambda>x. Optional_of (case x of Val n \<Rightarrow> Val (n + 1) | _ \<Rightarrow> x))))
      get s
   = (Inr (Val 2), s)"
  by (simp add: js_bind_def Optional_of_def js_return_run)

lemma scenario_ofNullable_null_ifPresentOrElse:
  "js_bind (Optional_ofNullable Null)
      (\<lambda>opt. ifPresentOrElse opt (\<lambda>v ran. (Inr (), ran)) (\<lambda>ran. (Inr (), Suc ran))) 0
   = (Inr (), 1)"
  by (simp add: js_bind_def Optional_ofNullable_def js_return_run)

end
